theory Spec2Isabelle
  imports Main
begin

section \<open>Tool registry (Cloud_Run/app/orchestration/tools.py)\<close>

text \<open>
  The process environment \<^verbatim>\<open>os.environ\<close> is a dictionary from names to values.
  \<^verbatim>\<open>os.environ.get(k, d)\<close> and \<^verbatim>\<open>os.getenv(k, d)\<close> return the default when the
  name is absent.
\<close>

type_synonym environ = "string \<rightharpoonup> string"

definition getenv :: "environ \<Rightarrow> string \<Rightarrow> string \<Rightarrow> string" where
  "getenv env k d = (case env k of None \<Rightarrow> d | Some v \<Rightarrow> v)"

text \<open>
  The module constants read at import:
  \<^verbatim>\<open>SERP_API_KEY = os.environ.get("SERPER_API_KEY", "unset")\<close> and
  \<^verbatim>\<open>DATA_STORE_ID = os.getenv("DATA_STORE_ID", "unset")\<close>.
\<close>

definition SERP_API_KEY :: "environ \<Rightarrow> string" where
  "SERP_API_KEY env = getenv env ''SERPER_API_KEY'' ''unset''"

definition DATA_STORE_ID :: "environ \<Rightarrow> string" where
  "DATA_STORE_ID env = getenv env ''DATA_STORE_ID'' ''unset''"

text \<open>
  The enumeration \<^verbatim>\<open>IndustryType\<close> lives in \<^verbatim>\<open>app.orchestration.enums\<close>, which is
  not among the sources; \<^verbatim>\<open>get_tools\<close> only reads the \<^verbatim>\<open>.value\<close> of its members,
  so the three values are taken as a parameter.
\<close>

record IndustryType =
  FINANCE_INDUSTRY :: string
  HEALTHCARE_INDUSTRY :: string
  RETAIL_INDUSTRY :: string

text \<open>The tool objects that \<^verbatim>\<open>get_tools\<close> can put into its list, by their source names.\<close>

datatype tool =
    YahooFinanceNewsTool
  | medical_publications_tool
  | google_search_tool
  | google_scholar_tool
  | google_trends_tool
  | google_finance_tool
  | retrieve_info_tool
  | fallback
  | should_continue

text \<open>
  \<^verbatim>\<open>get_tools(industry_type: str = None)\<close>: the list is built by appending, in the
  order of the source. The selector is \<open>None\<close> for Python's \<^verbatim>\<open>None\<close>; the comparison
  with an enum value is string equality. The retail branch is commented out in the source.
\<close>

definition get_tools :: "IndustryType \<Rightarrow> environ \<Rightarrow> string option \<Rightarrow> tool list" where
  "get_tools IT env industry_type =
    (let tools_list = [];
         tools_list =
           (if industry_type = Some (FINANCE_INDUSTRY IT) then tools_list @ [YahooFinanceNewsTool]
            else if industry_type = Some (HEALTHCARE_INDUSTRY IT)
              then tools_list @ [medical_publications_tool]
            else tools_list);
         tools_list =
           (if SERP_API_KEY env \<noteq> ''unset''
            then tools_list @
              [google_search_tool, google_scholar_tool, google_trends_tool, google_finance_tool]
            else tools_list);
         tools_list =
           (if DATA_STORE_ID env \<noteq> ''unset'' then tools_list @ [retrieve_info_tool]
            else tools_list)
     in tools_list @ [fallback, should_continue])"

text \<open>The tools that only an industry selector can add.\<close>

definition is_industry_tool :: "tool \<Rightarrow> bool" where
  "is_industry_tool t = (t = YahooFinanceNewsTool \<or> t = medical_publications_tool)"

section \<open>Exceptions\<close>

text \<open>
  Python exceptions: the class, the message given to the constructor, and the
  \<^verbatim>\<open>__cause__\<close> that \<^verbatim>\<open>raise ... from e\<close> attaches. \<open>NotFound\<close> is
  \<^verbatim>\<open>google.api_core.exceptions.NotFound\<close>; \<open>OtherError\<close> is any other class that
  derives from \<^verbatim>\<open>Exception\<close>. \<open>KeyboardInterrupt\<close>, \<open>SystemExit\<close> and
  \<open>GeneratorExit\<close> derive from \<^verbatim>\<open>BaseException\<close> only, so a handler
  \<^verbatim>\<open>except Exception\<close> does not catch them.
\<close>

datatype exn_class =
    NotFound | RuntimeError | IndexError | KeyError | OtherError string
  | KeyboardInterrupt | SystemExit | GeneratorExit

datatype exn = Exn (exn_class: exn_class) (exn_message: string) (exn_cause: "exn option")

text \<open>\<^verbatim>\<open>isinstance(e, Exception)\<close>: what \<^verbatim>\<open>except Exception\<close> matches.\<close>

definition isinstance_Exception :: "exn \<Rightarrow> bool" where
  "isinstance_Exception e =
     (case exn_class e of
        KeyboardInterrupt \<Rightarrow> False
      | SystemExit \<Rightarrow> False
      | GeneratorExit \<Rightarrow> False
      | _ \<Rightarrow> True)"

section \<open>Retriever adapter (app/rag/retriever.py and \<^verbatim>\<open>retrieve_info\<close> of tools.py)\<close>

text \<open>
  The retriever and the re-ranker are either the stub built on \<^verbatim>\<open>MagicMock\<close> or the
  client of the managed service, with the constructor arguments of the source.
\<close>

datatype retriever =
    MagicMock_retriever
  | VertexAISearchRetriever (project_id: string) (data_store_id: string) (location_id: string)
      (engine_data_type: int)

datatype compressor =
    MagicMock_compressor
  | VertexAIRank (rank_project_id: string) (rank_location_id: string) (ranking_config: string)
      (title_field: string) (top_n: nat)

definition get_retriever :: "environ \<Rightarrow> string \<Rightarrow> string \<Rightarrow> string \<Rightarrow> retriever" where
  "get_retriever env project data_store agent_builder_location =
     (if env ''INTEGRATION_TEST'' = Some ''TRUE'' then MagicMock_retriever
      else VertexAISearchRetriever project data_store agent_builder_location 0)"

definition get_compressor :: "environ \<Rightarrow> string \<Rightarrow> compressor" where
  "get_compressor env project =
     (if env ''INTEGRATION_TEST'' = Some ''TRUE'' then MagicMock_compressor
      else VertexAIRank project ''global'' ''default_ranking_config'' ''id'' 5)"

text \<open>
  A request that leaves the process is recorded in a log of network calls. The managed
  services themselves are parameters: \<open>search\<close> answers a query for a client,
  \<open>rank\<close> re-ranks documents for a query. The stub's \<^verbatim>\<open>invoke = lambda x: []\<close> and
  \<^verbatim>\<open>compress_documents = lambda documents, query: []\<close> return the empty list and
  reach no service.
\<close>

datatype net_call = Net_search string | Net_rank string

fun invoke ::
  "(retriever \<Rightarrow> string \<Rightarrow> exn + 'd list) \<Rightarrow> retriever \<Rightarrow> string
    \<Rightarrow> net_call list \<times> (exn + 'd list)" where
  "invoke search MagicMock_retriever x = ([], Inr [])"
| "invoke search (VertexAISearchRetriever p d l t) x =
     ([Net_search x], search (VertexAISearchRetriever p d l t) x)"

fun compress_documents ::
  "(compressor \<Rightarrow> 'd list \<Rightarrow> string \<Rightarrow> exn + 'd list) \<Rightarrow> compressor \<Rightarrow> 'd list \<Rightarrow> string
    \<Rightarrow> net_call list \<times> (exn + 'd list)" where
  "compress_documents rank MagicMock_compressor documents query = ([], Inr [])"
| "compress_documents rank (VertexAIRank p l c f n) documents query =
     ([Net_rank query], rank (VertexAIRank p l c f n) documents query)"

text \<open>
  The module-level singletons of tools.py, built at import from the environment and the
  project id that \<^verbatim>\<open>google.auth.default()\<close> returned.
\<close>

definition AGENT_BUILDER_LOCATION :: "environ \<Rightarrow> string" where
  "AGENT_BUILDER_LOCATION env = getenv env ''AGENT_BUILDER_LOCATION'' ''us''"

definition module_retriever :: "environ \<Rightarrow> string \<Rightarrow> retriever" where
  "module_retriever env project =
     get_retriever env project (DATA_STORE_ID env) (AGENT_BUILDER_LOCATION env)"

definition module_compressor :: "environ \<Rightarrow> string \<Rightarrow> compressor" where
  "module_compressor env project = get_compressor env project"

text \<open>
  \<^verbatim>\<open>retrieve_info(query)\<close>: search, re-rank, format. An error of a backend is not
  caught. The template object \<^verbatim>\<open>format_docs\<close> comes from \<^verbatim>\<open>app.rag.templates\<close>,
  which is not among the sources; the parameter \<open>template\<close> is its rendering
  \<^verbatim>\<open>format_docs.format(docs=...)\<close>.
\<close>

definition retrieve_info ::
  "(retriever \<Rightarrow> string \<Rightarrow> exn + 'd list) \<Rightarrow> (compressor \<Rightarrow> 'd list \<Rightarrow> string \<Rightarrow> exn + 'd list)
    \<Rightarrow> ('d list \<Rightarrow> string) \<Rightarrow> retriever \<Rightarrow> compressor \<Rightarrow> string
    \<Rightarrow> net_call list \<times> (exn + string \<times> 'd list)" where
  "retrieve_info search rank template retriever compressor query =
     (case invoke search retriever query of
        (net1, Inl e) \<Rightarrow> (net1, Inl e)
      | (net1, Inr retrieved_docs) \<Rightarrow>
          (case compress_documents rank compressor retrieved_docs query of
             (net2, Inl e) \<Rightarrow> (net1 @ net2, Inl e)
           | (net2, Inr ranked_docs) \<Rightarrow>
               (net1 @ net2, Inr (template ranked_docs, ranked_docs))))"

text \<open>
  Modelled from the spec: the template \<^verbatim>\<open>format_docs\<close> of \<^verbatim>\<open>app.rag.templates\<close>
  is missing from the sources. The spec says that it renders the ranked sequence into a
  single formatted text block, and that the formatted text is empty when the sequence
  is empty: the block is the renderings of the documents, one after the other. How one
  document is rendered is the parameter \<open>render\<close>.
\<close>

definition format_docs :: "('d \<Rightarrow> string) \<Rightarrow> 'd list \<Rightarrow> string" where
  "format_docs render docs = concat (map render docs)"

section \<open>Agent managers (Runtime_env/app/orchestration/agent.py)\<close>

subsection \<open>Construction\<close>

text \<open>
  The arguments of \<^verbatim>\<open>BaseAgentManager.__init__\<close>, stored on \<^verbatim>\<open>self\<close> as they are.
  Floating-point parameters are opaque values of a type \<open>'f\<close>; a parameter whose
  default in the subclasses is \<^verbatim>\<open>None\<close> is an option.
\<close>

record 'f agent_config =
  prompt :: string
  industry_type :: string
  orchestration_framework :: string
  model_name :: string
  max_retries :: int
  max_output_tokens :: "int option"
  temperature :: 'f
  top_p :: "'f option"
  top_k :: "int option"
  return_steps :: bool
  verbose :: bool

text \<open>
  The object under construction: the three attributes that \<^verbatim>\<open>__init__\<close> computes are
  \<open>None\<close> until their assignment has run.
\<close>

record ('f, 't, 'm, 'x) manager =
  config :: "'f agent_config"
  tools :: "'t list option"
  model_obj :: "'m option"
  agent_executor :: "'x option"

text \<open>The keyword arguments that \<^verbatim>\<open>get_model_obj\<close> passes to \<^verbatim>\<open>ChatVertexAI\<close>.\<close>

type_synonym 'f chat_args = "string \<times> int \<times> int option \<times> 'f \<times> 'f option \<times> int option \<times> bool"

text \<open>
  \<^verbatim>\<open>get_model_obj\<close>: a \<open>NotFound\<close> of the constructor is raised again as a new
  \<open>NotFound\<close> (no \<^verbatim>\<open>from\<close>), any other instance of \<^verbatim>\<open>Exception\<close> as a
  \<open>RuntimeError\<close> with the original as its cause; what neither handler matches
  propagates as it is. \<open>str_of\<close> is Python's \<^verbatim>\<open>str\<close> on an exception, used by the
  f-strings.
\<close>

definition get_model_obj ::
  "(exn \<Rightarrow> string) \<Rightarrow> ('f chat_args \<Rightarrow> exn + 'm) \<Rightarrow> 'f agent_config \<Rightarrow> exn + 'm" where
  "get_model_obj str_of ChatVertexAI cfg =
     (case ChatVertexAI (model_name cfg, max_retries cfg, max_output_tokens cfg,
             temperature cfg, top_p cfg, top_k cfg, verbose cfg) of
        Inr m \<Rightarrow> Inr m
      | Inl e \<Rightarrow>
          (if exn_class e = NotFound
           then Inl (Exn NotFound (''Resource not found. '' @ str_of e) None)
           else if isinstance_Exception e
           then Inl (Exn RuntimeError
                  (''Error encountered initalizing model resource. '' @ str_of e) (Some e))
           else Inl e))"

text \<open>
  The method \<^verbatim>\<open>BaseAgentManager.get_tools\<close> calls the function \<^verbatim>\<open>get_tools\<close> of
  \<^verbatim>\<open>app.orchestration.tools\<close> with the industry type and the orchestration framework;
  that two-argument function is the parameter \<open>registry\<close>.
\<close>

definition manager_get_tools ::
  "(string \<Rightarrow> string \<Rightarrow> exn + 't list) \<Rightarrow> 'f agent_config \<Rightarrow> exn + 't list" where
  "manager_get_tools registry cfg = registry (industry_type cfg) (orchestration_framework cfg)"

text \<open>
  \<^verbatim>\<open>BaseAgentManager.__init__\<close>, lines 84 to 86: tools, then model, then the abstract
  hook \<^verbatim>\<open>set_up\<close>. The result is the log of the calls made, the object as the last
  assignment left it, and the exception that ended the construction, if any.
\<close>

datatype call = Call_get_tools | Call_ChatVertexAI | Call_set_up

definition manager_init ::
  "(exn \<Rightarrow> string) \<Rightarrow> (string \<Rightarrow> string \<Rightarrow> exn + 't list) \<Rightarrow> ('f chat_args \<Rightarrow> exn + 'm)
    \<Rightarrow> (('f, 't, 'm, 'x) manager \<Rightarrow> exn + 'x) \<Rightarrow> 'f agent_config
    \<Rightarrow> call list \<times> ('f, 't, 'm, 'x) manager \<times> exn option" where
  "manager_init str_of registry ChatVertexAI set_up cfg =
     (let self = \<lparr>config = cfg, tools = None, model_obj = None, agent_executor = None\<rparr> in
      case manager_get_tools registry cfg of
        Inl e \<Rightarrow> ([Call_get_tools], self, Some e)
      | Inr ts \<Rightarrow>
          (let self = self\<lparr>tools := Some ts\<rparr> in
           case get_model_obj str_of ChatVertexAI cfg of
             Inl e \<Rightarrow> ([Call_get_tools, Call_ChatVertexAI], self, Some e)
           | Inr m \<Rightarrow>
               (let self = self\<lparr>model_obj := Some m\<rparr> in
                case set_up self of
                  Inl e \<Rightarrow> ([Call_get_tools, Call_ChatVertexAI, Call_set_up], self, Some e)
                | Inr x \<Rightarrow>
                    ([Call_get_tools, Call_ChatVertexAI, Call_set_up],
                     self\<lparr>agent_executor := Some x\<rparr>, None))))"

text \<open>A sample configuration, for evaluating the construction.\<close>

definition example_config :: "int agent_config" where
  "example_config =
     \<lparr>prompt = ''You are a helpful agent.'', industry_type = ''finance'',
      orchestration_framework = ''langgraph_prebuilt_agent'', model_name = ''no-such-model'',
      max_retries = 6, max_output_tokens = None, temperature = 0, top_p = None, top_k = None,
      return_steps = False, verbose = True\<rparr>"

text \<open>
  Sample collaborators for evaluating the construction: a registry that returns two
  tools, a model constructor that fails with \<open>NotFound\<close>, and a hook that succeeds.
\<close>

definition example_registry :: "string \<Rightarrow> string \<Rightarrow> exn + tool list" where
  "example_registry industry framework = Inr [fallback, should_continue]"

definition model_not_found :: "int chat_args \<Rightarrow> exn + unit" where
  "model_not_found args = Inl (Exn NotFound ''404 Publisher Model was not found'' None)"

definition example_set_up :: "(int, tool, unit, unit) manager \<Rightarrow> exn + unit" where
  "example_set_up self = Inr ()"

subsection \<open>Streaming\<close>

text \<open>
  What an iterator does when it is advanced: \<open>Inr x\<close> is the next item, \<open>Inl e\<close> is
  the exception it raises, the end of the list is its normal end. A call that raises
  before the first item is a stream that starts with \<open>Inl e\<close>. A \<^verbatim>\<open>for\<close> loop stops at
  the first exception; \<open>delivered\<close> lists the items it has received until then.
\<close>

type_synonym 'a stream = "(exn + 'a) list"

fun delivered :: "'a stream \<Rightarrow> 'a list" where
  "delivered [] = []"
| "delivered (Inl e # rest) = []"
| "delivered (Inr x # rest) = x # delivered rest"

text \<open>How a generator ends once it is consumed to its end.\<close>

datatype outcome = Returned | Raised exn

text \<open>
  The handler of both variants:
  \<^verbatim>\<open>except Exception as e: raise RuntimeError(f"Unexpected error. {e}") from e\<close>.
  An exception that is not an instance of \<^verbatim>\<open>Exception\<close> passes the handler and
  leaves the generator as it is.
\<close>

definition unexpected_error :: "(exn \<Rightarrow> string) \<Rightarrow> exn \<Rightarrow> exn" where
  "unexpected_error str_of e = Exn RuntimeError (''Unexpected error. '' @ str_of e) (Some e)"

definition finish :: "(exn \<Rightarrow> string) \<Rightarrow> exn option \<Rightarrow> outcome" where
  "finish str_of r =
     (case r of
        None \<Rightarrow> Returned
      | Some e \<Rightarrow>
          (if isinstance_Exception e then Raised (unexpected_error str_of e) else Raised e))"

text \<open>Chat messages, by their LangChain class.\<close>

datatype message =
    HumanMessage (content: string)
  | AIMessage (content: string)
  | AIMessageChunk (content: string)
  | ToolMessage (content: string)
  | SystemMessage (content: string)

text \<open>
  Variant A (\<^verbatim>\<open>LangChainPrebuiltAgentManager.stream_query\<close>). A streamed chunk is a
  dictionary. The input of the executor is the dictionary
  \<^verbatim>\<open>{"input": input["messages"][0], "chat_history": input["messages"][1:]}\<close>;
  building it raises \<open>KeyError\<close> without the key and \<open>IndexError\<close> on an empty list,
  inside the \<^verbatim>\<open>try\<close>.
\<close>

type_synonym 'v chunk = "string \<rightharpoonup> 'v"

record 'm exec_input =
  input :: 'm
  chat_history :: "'m list"

definition exec_input_of :: "(string \<rightharpoonup> 'm list) \<Rightarrow> exn + 'm exec_input" where
  "exec_input_of inp =
     (case inp ''messages'' of
        None \<Rightarrow> Inl (Exn KeyError ''messages'' None)
      | Some [] \<Rightarrow> Inl (Exn IndexError ''list index out of range'' None)
      | Some (first # rest) \<Rightarrow> Inr \<lparr>input = first, chat_history = rest\<rparr>)"

text \<open>
  The loop body: \<^verbatim>\<open>if "output" in chunk: chunk["content"] = chunk["output"]; yield chunk\<close>.
\<close>

fun for_chunks_A :: "'v chunk stream \<Rightarrow> 'v chunk list \<times> exn option" where
  "for_chunks_A [] = ([], None)"
| "for_chunks_A (Inl e # rest) = ([], Some e)"
| "for_chunks_A (Inr chunk # rest) =
     (case chunk ''output'' of
        Some out \<Rightarrow>
          (case for_chunks_A rest of (ys, r) \<Rightarrow> (chunk(''content'' \<mapsto> out) # ys, r))
      | None \<Rightarrow> for_chunks_A rest)"

definition stream_query_A ::
  "(exn \<Rightarrow> string) \<Rightarrow> ('m exec_input \<Rightarrow> 'v chunk stream) \<Rightarrow> (string \<rightharpoonup> 'm list)
    \<Rightarrow> 'v chunk list \<times> outcome" where
  "stream_query_A str_of agent_executor_stream inp =
     (case exec_input_of inp of
        Inl e \<Rightarrow> ([], finish str_of (Some e))
      | Inr args \<Rightarrow>
          (case for_chunks_A (agent_executor_stream args) of
             (ys, r) \<Rightarrow> (ys, finish str_of r)))"

text \<open>
  Variant B (\<^verbatim>\<open>LangGraphPrebuiltAgentManager.stream_query\<close>). A streamed unit is a
  pair of a message and its metadata, \<^verbatim>\<open>chunk[0]\<close> is the message. The generator
  yields to its consumer and prints to the local output; both are kept, in order.
  \<^verbatim>\<open>isinstance\<close> is true for a class and its subclasses.
\<close>

datatype 'y effect = Yield 'y | Print string

definition isinstance_AI :: "message \<Rightarrow> bool" where
  "isinstance_AI m = (case m of AIMessageChunk _ \<Rightarrow> True | AIMessage _ \<Rightarrow> True | _ \<Rightarrow> False)"

definition isinstance_Tool :: "message \<Rightarrow> bool" where
  "isinstance_Tool m = (case m of ToolMessage _ \<Rightarrow> True | _ \<Rightarrow> False)"

fun for_chunks_B :: "(message \<times> 'meta) stream \<Rightarrow> message effect list \<times> exn option" where
  "for_chunks_B [] = ([], None)"
| "for_chunks_B (Inl e # rest) = ([], Some e)"
| "for_chunks_B (Inr chunk # rest) =
     (let message = fst chunk in
      if isinstance_AI message
      then (case for_chunks_B rest of (tr, r) \<Rightarrow> (Yield message # tr, r))
      else if isinstance_Tool message
      then (case for_chunks_B rest of
              (tr, r) \<Rightarrow> (Print (''ToolMessage received: '' @ content message) # tr, r))
      else for_chunks_B rest)"

definition stream_query_B ::
  "(exn \<Rightarrow> string) \<Rightarrow> ('i \<Rightarrow> (message \<times> 'meta) stream) \<Rightarrow> 'i \<Rightarrow> message effect list \<times> outcome" where
  "stream_query_B str_of agent_executor_stream inp =
     (case for_chunks_B (agent_executor_stream inp) of (tr, r) \<Rightarrow> (tr, finish str_of r))"

text \<open>What the consumer of a generator receives, and what was printed.\<close>

fun yielded :: "'y effect list \<Rightarrow> 'y list" where
  "yielded [] = []"
| "yielded (Yield y # tr) = y # yielded tr"
| "yielded (Print s # tr) = yielded tr"

fun printed :: "'y effect list \<Rightarrow> string list" where
  "printed [] = []"
| "printed (Yield y # tr) = printed tr"
| "printed (Print s # tr) = s # printed tr"

text \<open>
  A stream without the units that variant B passes over: those whose message is neither
  an assistant message nor a tool message.
\<close>

definition drop_unhandled :: "(message \<times> 'meta) stream \<Rightarrow> (message \<times> 'meta) stream" where
  "drop_unhandled evs =
     filter (\<lambda>ev. case ev of Inl e \<Rightarrow> True
                | Inr chunk \<Rightarrow> isinstance_AI (fst chunk) \<or> isinstance_Tool (fst chunk)) evs"

text \<open>A sample enumeration, for evaluating the registry on concrete selectors.\<close>

definition example_IndustryType :: IndustryType where
  "example_IndustryType =
     \<lparr>FINANCE_INDUSTRY = ''finance'', HEALTHCARE_INDUSTRY = ''healthcare'',
      RETAIL_INDUSTRY = ''retail''\<rparr>"

section \<open>Properties of the tool registry\<close>

text \<open>The four stages of \<open>get_tools\<close>, side by side.\<close>

lemma get_tools_parts:
  "get_tools IT env sel =
     (if sel = Some (FINANCE_INDUSTRY IT) then [YahooFinanceNewsTool]
      else if sel = Some (HEALTHCARE_INDUSTRY IT) then [medical_publications_tool]
      else []) @
     (if SERP_API_KEY env \<noteq> ''unset''
      then [google_search_tool, google_scholar_tool, google_trends_tool, google_finance_tool]
      else []) @
     (if DATA_STORE_ID env \<noteq> ''unset'' then [retrieve_info_tool] else []) @
     [fallback, should_continue]"
  by (simp add: get_tools_def Let_def)

text \<open>
  C5: for every industry selector and every environment, the list returned by
  \<open>get_tools\<close> contains the fallback tool and the stop-reasoning tool, they are its last
  two elements, and the fallback tool comes before the stop tool.
\<close>

theorem get_tools_fallback_stop_last:
  "fallback \<in> set (get_tools IT env sel) \<and>
   should_continue \<in> set (get_tools IT env sel) \<and>
   (\<exists>pre. get_tools IT env sel = pre @ [fallback, should_continue]) \<and>
   2 \<le> length (get_tools IT env sel) \<and>
   drop (length (get_tools IT env sel) - 2) (get_tools IT env sel) = [fallback, should_continue]"
  by (simp add: get_tools_def Let_def)

text \<open>
  C6: for every industry selector, when the search-API-key value \<open>SERP_API_KEY\<close> is the
  sentinel \<open>''unset''\<close>, none of the four general web-information tools (search, scholar,
  trends, finance) occurs in the result of \<open>get_tools\<close>; when it is any other value, the
  four occur as one contiguous block, in that order, and nowhere else.
\<close>

theorem get_tools_web_tools:
  "(SERP_API_KEY env = ''unset'' \<longrightarrow>
      set (get_tools IT env sel) \<inter>
        {google_search_tool, google_scholar_tool, google_trends_tool, google_finance_tool} = {}) \<and>
   (SERP_API_KEY env \<noteq> ''unset'' \<longrightarrow>
      (\<exists>pre post. get_tools IT env sel =
          pre @ [google_search_tool, google_scholar_tool, google_trends_tool, google_finance_tool]
            @ post \<and>
        set pre \<inter>
          {google_search_tool, google_scholar_tool, google_trends_tool, google_finance_tool} = {} \<and>
        set post \<inter>
          {google_search_tool, google_scholar_tool, google_trends_tool, google_finance_tool} = {}))"
proof (intro conjI impI)
  assume "SERP_API_KEY env = ''unset''"
  then show "set (get_tools IT env sel) \<inter>
      {google_search_tool, google_scholar_tool, google_trends_tool, google_finance_tool} = {}"
    by (simp add: get_tools_def Let_def)
next
  let ?web = "[google_search_tool, google_scholar_tool, google_trends_tool, google_finance_tool]"
  let ?pre = "if sel = Some (FINANCE_INDUSTRY IT) then [YahooFinanceNewsTool]
              else if sel = Some (HEALTHCARE_INDUSTRY IT) then [medical_publications_tool]
              else []"
  let ?post = "(if DATA_STORE_ID env \<noteq> ''unset'' then [retrieve_info_tool] else [])
                @ [fallback, should_continue]"
  assume key: "SERP_API_KEY env \<noteq> ''unset''"
  then have "get_tools IT env sel = ?pre @ ?web @ ?post"
    by (simp add: get_tools_def Let_def)
  moreover have "set ?pre \<inter> set ?web = {}"
    by simp
  moreover have "set ?post \<inter> set ?web = {}"
    by simp
  ultimately show "\<exists>pre post. get_tools IT env sel = pre @ ?web @ post \<and>
      set pre \<inter>
        {google_search_tool, google_scholar_tool, google_trends_tool, google_finance_tool} = {} \<and>
      set post \<inter>
        {google_search_tool, google_scholar_tool, google_trends_tool, google_finance_tool} = {}"
    by (metis list.simps(15) empty_set)
qed

theorem get_tools_web_tools_witness:
  "SERP_API_KEY Map.empty = ''unset'' \<and>
   set (get_tools \<lparr>FINANCE_INDUSTRY = ''finance'', HEALTHCARE_INDUSTRY = ''healthcare'',
         RETAIL_INDUSTRY = ''retail''\<rparr> Map.empty (Some ''finance'')) \<inter>
     {google_search_tool, google_scholar_tool, google_trends_tool, google_finance_tool} = {} \<and>
   SERP_API_KEY [''SERPER_API_KEY'' \<mapsto> ''k1''] \<noteq> ''unset'' \<and>
   (\<exists>pre post.
      get_tools \<lparr>FINANCE_INDUSTRY = ''finance'', HEALTHCARE_INDUSTRY = ''healthcare'',
          RETAIL_INDUSTRY = ''retail''\<rparr> [''SERPER_API_KEY'' \<mapsto> ''k1''] (Some ''finance'') =
        pre @ [google_search_tool, google_scholar_tool, google_trends_tool, google_finance_tool]
          @ post \<and>
      set pre \<inter>
        {google_search_tool, google_scholar_tool, google_trends_tool, google_finance_tool} = {} \<and>
      set post \<inter>
        {google_search_tool, google_scholar_tool, google_trends_tool, google_finance_tool} = {})"
proof -
  let ?IT = "\<lparr>FINANCE_INDUSTRY = ''finance'', HEALTHCARE_INDUSTRY = ''healthcare'',
    RETAIL_INDUSTRY = ''retail''\<rparr>"
  have unset: "SERP_API_KEY Map.empty = ''unset''"
    by (simp add: SERP_API_KEY_def getenv_def)
  have set_key: "SERP_API_KEY [''SERPER_API_KEY'' \<mapsto> ''k1''] \<noteq> ''unset''"
    by (simp add: SERP_API_KEY_def getenv_def)
  note absent = get_tools_web_tools [of Map.empty ?IT "Some ''finance''",
    THEN conjunct1, rule_format, OF unset]
  note present = get_tools_web_tools [of "[''SERPER_API_KEY'' \<mapsto> ''k1'']" ?IT
    "Some ''finance''", THEN conjunct2, rule_format, OF set_key]
  from unset absent set_key present show ?thesis
    by (intro conjI)
qed

text \<open>
  C7: for every selector, \<open>get_tools\<close> adds at most one industry-specific tool, chosen by
  exact match of the selector with an enum value: the finance value and the healthcare
  value add exactly one each, the reserved retail value adds none. For a selector that
  matches neither (unknown, or absent) no industry tool is added: the result is the
  general-purpose list, in which the web tools and the retrieval tool are still included
  under their own conditions and the fallback and stop tools always.
\<close>

theorem get_tools_industry_selector:
  "length (filter is_industry_tool (get_tools IT env sel)) \<le> 1 \<and>
   get_tools IT env sel = filter is_industry_tool (get_tools IT env sel) @ get_tools IT env None \<and>
   filter is_industry_tool (get_tools IT env None) = [] \<and>
   (sel = Some (FINANCE_INDUSTRY IT) \<longrightarrow>
      filter is_industry_tool (get_tools IT env sel) = [YahooFinanceNewsTool]) \<and>
   (sel = Some (HEALTHCARE_INDUSTRY IT) \<longrightarrow>
      length (filter is_industry_tool (get_tools IT env sel)) = 1) \<and>
   (sel = Some (HEALTHCARE_INDUSTRY IT) \<and> HEALTHCARE_INDUSTRY IT \<noteq> FINANCE_INDUSTRY IT \<longrightarrow>
      filter is_industry_tool (get_tools IT env sel) = [medical_publications_tool]) \<and>
   (sel = Some (RETAIL_INDUSTRY IT) \<and> RETAIL_INDUSTRY IT \<noteq> FINANCE_INDUSTRY IT \<and>
      RETAIL_INDUSTRY IT \<noteq> HEALTHCARE_INDUSTRY IT \<longrightarrow>
      filter is_industry_tool (get_tools IT env sel) = []) \<and>
   (sel \<noteq> Some (FINANCE_INDUSTRY IT) \<and> sel \<noteq> Some (HEALTHCARE_INDUSTRY IT) \<longrightarrow>
      get_tools IT env sel =
        (if SERP_API_KEY env \<noteq> ''unset''
         then [google_search_tool, google_scholar_tool, google_trends_tool, google_finance_tool]
         else []) @
        (if DATA_STORE_ID env \<noteq> ''unset'' then [retrieve_info_tool] else []) @
        [fallback, should_continue])"
proof (intro conjI impI)
  show "length (filter is_industry_tool (get_tools IT env sel)) \<le> 1"
    by (simp add: get_tools_parts is_industry_tool_def)
  show "get_tools IT env sel =
      filter is_industry_tool (get_tools IT env sel) @ get_tools IT env None"
    by (simp add: get_tools_parts is_industry_tool_def)
  show "filter is_industry_tool (get_tools IT env None) = []"
    by (simp add: get_tools_parts is_industry_tool_def)
next
  assume "sel = Some (FINANCE_INDUSTRY IT)"
  then show "filter is_industry_tool (get_tools IT env sel) = [YahooFinanceNewsTool]"
    by (simp add: get_tools_parts is_industry_tool_def)
next
  assume "sel = Some (HEALTHCARE_INDUSTRY IT)"
  then show "length (filter is_industry_tool (get_tools IT env sel)) = 1"
    by (simp add: get_tools_parts is_industry_tool_def)
next
  assume "sel = Some (HEALTHCARE_INDUSTRY IT) \<and> HEALTHCARE_INDUSTRY IT \<noteq> FINANCE_INDUSTRY IT"
  then show "filter is_industry_tool (get_tools IT env sel) = [medical_publications_tool]"
    by (simp add: get_tools_parts is_industry_tool_def)
next
  assume "sel = Some (RETAIL_INDUSTRY IT) \<and> RETAIL_INDUSTRY IT \<noteq> FINANCE_INDUSTRY IT \<and>
    RETAIL_INDUSTRY IT \<noteq> HEALTHCARE_INDUSTRY IT"
  then show "filter is_industry_tool (get_tools IT env sel) = []"
    by (simp add: get_tools_parts is_industry_tool_def)
next
  assume "sel \<noteq> Some (FINANCE_INDUSTRY IT) \<and> sel \<noteq> Some (HEALTHCARE_INDUSTRY IT)"
  then show "get_tools IT env sel =
      (if SERP_API_KEY env \<noteq> ''unset''
       then [google_search_tool, google_scholar_tool, google_trends_tool, google_finance_tool]
       else []) @
      (if DATA_STORE_ID env \<noteq> ''unset'' then [retrieve_info_tool] else []) @
      [fallback, should_continue]"
    by (simp add: get_tools_parts)
qed

theorem get_tools_industry_selector_witness:
  "filter is_industry_tool (get_tools example_IndustryType Map.empty (Some ''finance'')) =
     [YahooFinanceNewsTool] \<and>
   filter is_industry_tool (get_tools example_IndustryType Map.empty (Some ''healthcare'')) =
     [medical_publications_tool] \<and>
   length (filter is_industry_tool
     (get_tools example_IndustryType Map.empty (Some ''healthcare''))) = 1 \<and>
   filter is_industry_tool (get_tools example_IndustryType Map.empty (Some ''retail'')) = [] \<and>
   get_tools example_IndustryType [''DATA_STORE_ID'' \<mapsto> ''ds1''] (Some ''Finance'') =
     [retrieve_info_tool, fallback, should_continue] \<and>
   get_tools example_IndustryType [''DATA_STORE_ID'' \<mapsto> ''ds1''] None =
     [retrieve_info_tool, fallback, should_continue]"
proof -
  have fin: "Some ''finance'' = Some (FINANCE_INDUSTRY example_IndustryType)"
    by (simp add: example_IndustryType_def)
  have health: "Some ''healthcare'' = Some (HEALTHCARE_INDUSTRY example_IndustryType) \<and>
      HEALTHCARE_INDUSTRY example_IndustryType \<noteq> FINANCE_INDUSTRY example_IndustryType"
    by (simp add: example_IndustryType_def)
  have retail: "Some ''retail'' = Some (RETAIL_INDUSTRY example_IndustryType) \<and>
      RETAIL_INDUSTRY example_IndustryType \<noteq> FINANCE_INDUSTRY example_IndustryType \<and>
      RETAIL_INDUSTRY example_IndustryType \<noteq> HEALTHCARE_INDUSTRY example_IndustryType"
    by (simp add: example_IndustryType_def)
  have unknown: "Some ''Finance'' \<noteq> Some (FINANCE_INDUSTRY example_IndustryType) \<and>
      Some ''Finance'' \<noteq> Some (HEALTHCARE_INDUSTRY example_IndustryType)"
    by (simp add: example_IndustryType_def)
  have absent: "None \<noteq> Some (FINANCE_INDUSTRY example_IndustryType) \<and>
      None \<noteq> Some (HEALTHCARE_INDUSTRY example_IndustryType)"
    by simp
  have env1: "SERP_API_KEY [''DATA_STORE_ID'' \<mapsto> ''ds1''] = ''unset''"
    by (simp add: SERP_API_KEY_def getenv_def)
  have env2: "DATA_STORE_ID [''DATA_STORE_ID'' \<mapsto> ''ds1''] \<noteq> ''unset''"
    by (simp add: DATA_STORE_ID_def getenv_def)
  note T = get_tools_industry_selector [where IT = example_IndustryType]
  have w1: "filter is_industry_tool (get_tools example_IndustryType Map.empty (Some ''finance'')) =
      [YahooFinanceNewsTool]"
    using T [where sel = "Some ''finance''" and env = Map.empty] fin by (elim conjE) blast
  have w2: "filter is_industry_tool
      (get_tools example_IndustryType Map.empty (Some ''healthcare'')) =
      [medical_publications_tool]"
    using T [where sel = "Some ''healthcare''" and env = Map.empty] health by (elim conjE) blast
  have w3: "length (filter is_industry_tool
      (get_tools example_IndustryType Map.empty (Some ''healthcare''))) = 1"
    using w2 by simp
  have w4: "filter is_industry_tool
      (get_tools example_IndustryType Map.empty (Some ''retail'')) = []"
    using T [where sel = "Some ''retail''" and env = Map.empty] retail by (elim conjE) blast
  have w5: "get_tools example_IndustryType [''DATA_STORE_ID'' \<mapsto> ''ds1''] (Some ''Finance'') =
      [retrieve_info_tool, fallback, should_continue]"
    using T [where sel = "Some ''Finance''" and env = "[''DATA_STORE_ID'' \<mapsto> ''ds1'']"]
      unknown env1 env2 by (elim conjE) simp
  have w6: "get_tools example_IndustryType [''DATA_STORE_ID'' \<mapsto> ''ds1''] None =
      [retrieve_info_tool, fallback, should_continue]"
    using T [where sel = None and env = "[''DATA_STORE_ID'' \<mapsto> ''ds1'']"]
      absent env1 env2 by (elim conjE) simp
  from w1 w2 w3 w4 w5 w6 show ?thesis
    by (intro conjI)
qed

section \<open>Properties of the retriever adapter\<close>

text \<open>
  C2: for every query, when the environment variable \<open>INTEGRATION_TEST\<close> is \<open>''TRUE''\<close>,
  the retriever and the re-ranker are the stubs, each returns the empty list under the
  call that \<open>retrieve_info\<close> makes, no network call is logged, and \<open>retrieve_info\<close>
  returns the rendering of the empty list together with the empty document list; with
  the template as the spec describes it, that is the empty text and the empty list.
\<close>

theorem retrieve_info_test_mode:
  "env ''INTEGRATION_TEST'' = Some ''TRUE'' \<Longrightarrow>
     module_retriever env project = MagicMock_retriever \<and>
     module_compressor env project = MagicMock_compressor \<and>
     invoke search (module_retriever env project) query = ([], Inr []) \<and>
     compress_documents rank (module_compressor env project) documents query = ([], Inr []) \<and>
     retrieve_info search rank template (module_retriever env project)
       (module_compressor env project) query = ([], Inr (template [], [])) \<and>
     retrieve_info search rank (format_docs render) (module_retriever env project)
       (module_compressor env project) query = ([], Inr ('''', []))"
  by (simp add: module_retriever_def module_compressor_def get_retriever_def get_compressor_def
      retrieve_info_def format_docs_def)

theorem retrieve_info_test_mode_witness:
  "[''INTEGRATION_TEST'' \<mapsto> ''TRUE''] ''INTEGRATION_TEST'' = Some ''TRUE'' \<and>
   retrieve_info (\<lambda>r q. Inr [''doc'']) (\<lambda>c ds q. Inr ds) (format_docs (\<lambda>d. d))
     (module_retriever [''INTEGRATION_TEST'' \<mapsto> ''TRUE''] ''my-project'')
     (module_compressor [''INTEGRATION_TEST'' \<mapsto> ''TRUE''] ''my-project'') ''what is an ETF?'' =
     ([], Inr ('''', []))"
proof -
  have h: "[''INTEGRATION_TEST'' \<mapsto> ''TRUE''] ''INTEGRATION_TEST'' = Some ''TRUE''"
    by simp
  from h retrieve_info_test_mode [where env = "[''INTEGRATION_TEST'' \<mapsto> ''TRUE'']"
      and project = "''my-project''" and query = "''what is an ETF?''"
      and search = "\<lambda>r q. Inr [''doc'']" and rank = "\<lambda>c ds q. Inr ds"
      and render = "\<lambda>d. d", OF h, THEN conjunct2, THEN conjunct2,
      THEN conjunct2, THEN conjunct2, THEN conjunct2]
  show ?thesis
    by simp
qed

section \<open>Properties of the construction\<close>

text \<open>
  C1 (as amended): for every construction in which the registry returns a tool list and
  the chat-model constructor then fails with a model-not-found error, the construction
  raises a \<open>NotFound\<close> failure after the tool list has been resolved and stored, and
  before any executor is built: the hook \<open>set_up\<close> is never called, whatever it is.
\<close>

theorem manager_init_model_not_found:
  "registry (industry_type cfg) (orchestration_framework cfg) = Inr ts \<and>
   ChatVertexAI (model_name cfg, max_retries cfg, max_output_tokens cfg, temperature cfg,
     top_p cfg, top_k cfg, verbose cfg) = Inl e \<and>
   exn_class e = NotFound \<longrightarrow>
     manager_init str_of registry ChatVertexAI set_up cfg =
       ([Call_get_tools, Call_ChatVertexAI],
        \<lparr>config = cfg, tools = Some ts, model_obj = None, agent_executor = None\<rparr>,
        Some (Exn NotFound (''Resource not found. '' @ str_of e) None))"
  by (simp add: manager_init_def manager_get_tools_def get_model_obj_def Let_def)

theorem manager_init_model_not_found_witness:
  "manager_init exn_message example_registry model_not_found example_set_up example_config =
     ([Call_get_tools, Call_ChatVertexAI],
      \<lparr>config = example_config, tools = Some [fallback, should_continue], model_obj = None,
        agent_executor = None\<rparr>,
      Some (Exn NotFound ''Resource not found. 404 Publisher Model was not found'' None))"
proof -
  let ?e = "Exn NotFound ''404 Publisher Model was not found'' None"
  have h: "example_registry (industry_type example_config)
        (orchestration_framework example_config) = Inr [fallback, should_continue] \<and>
      model_not_found (model_name example_config, max_retries example_config,
        max_output_tokens example_config, temperature example_config, top_p example_config,
        top_k example_config, verbose example_config) = Inl ?e \<and>
      exn_class ?e = NotFound"
    by (simp add: example_registry_def model_not_found_def)
  from manager_init_model_not_found [where registry = example_registry
      and ChatVertexAI = model_not_found and cfg = example_config and e = ?e
      and ts = "[fallback, should_continue]" and str_of = exn_message
      and set_up = example_set_up, rule_format, OF h]
  show ?thesis
    by simp
qed

text \<open>
  The claim as first stated, that no tool list is resolved by the time the failure is
  raised, fails at the sample configuration: the model constructor fails there with
  \<open>NotFound\<close>, and the registry has been called and its tools stored by then.
\<close>

theorem manager_init_tools_resolved_first:
  "\<not> (model_not_found (model_name example_config, max_retries example_config,
          max_output_tokens example_config, temperature example_config, top_p example_config,
          top_k example_config, verbose example_config) =
          Inl (Exn NotFound ''404 Publisher Model was not found'' None) \<longrightarrow>
        Call_get_tools \<notin> set (fst (manager_init exn_message example_registry model_not_found
          example_set_up example_config)) \<and>
        tools (fst (snd (manager_init exn_message example_registry model_not_found
          example_set_up example_config))) = None \<and>
        Call_set_up \<notin> set (fst (manager_init exn_message example_registry model_not_found
          example_set_up example_config)))"
  by (simp add: manager_init_def manager_get_tools_def get_model_obj_def Let_def
      example_registry_def model_not_found_def)

section \<open>Properties of the streaming queries\<close>

subsection \<open>The loops\<close>

lemma for_chunks_A_yields:
  "fst (for_chunks_A evs) =
     map (\<lambda>c. c(''content'' := c ''output'')) (filter (\<lambda>c. c ''output'' \<noteq> None) (delivered evs))"
  by (induction evs rule: for_chunks_A.induct) (auto split: option.splits prod.splits)

lemma for_chunks_A_raise:
  "for_chunks_A (map Inr pre @ Inl e # post) = (fst (for_chunks_A (map Inr pre)), Some e)"
  by (induction pre) (auto split: option.splits prod.splits)

lemma yielded_for_chunks_B:
  "yielded (fst (for_chunks_B evs)) = filter isinstance_AI (map fst (delivered evs))"
proof (induction evs)
  case Nil
  show ?case by simp
next
  case (Cons ev evs)
  then show ?case
    by (cases ev) (auto simp: Let_def split: prod.splits)
qed

lemma printed_for_chunks_B:
  "printed (fst (for_chunks_B evs)) =
     map (\<lambda>m. ''ToolMessage received: '' @ content m)
       (filter (\<lambda>m. \<not> isinstance_AI m \<and> isinstance_Tool m) (map fst (delivered evs)))"
proof (induction evs)
  case Nil
  show ?case by simp
next
  case (Cons ev evs)
  then show ?case
    by (cases ev) (auto simp: Let_def split: prod.splits)
qed

lemma for_chunks_B_raise:
  "for_chunks_B (map Inr pre @ Inl e # post) = (fst (for_chunks_B (map Inr pre)), Some e)"
  by (induction pre) (auto simp: Let_def split: prod.splits)

lemma for_chunks_B_drop_unhandled:
  "for_chunks_B (drop_unhandled evs) = for_chunks_B evs"
proof (induction evs)
  case Nil
  show ?case by (simp add: drop_unhandled_def)
next
  case (Cons ev evs)
  then show ?case
    by (cases ev) (auto simp: Let_def drop_unhandled_def split: prod.splits)
qed

lemma isinstance_Tool_not_AI: "isinstance_Tool m \<Longrightarrow> \<not> isinstance_AI m"
  by (cases m) (simp_all add: isinstance_Tool_def isinstance_AI_def)

lemma delivered_map_Inr: "delivered (map Inr xs) = xs"
  by (induction xs) simp_all

lemma fst_stream_query_A:
  "exec_input_of inp = Inr args \<Longrightarrow>
     stream_query_A str_of ex inp =
       (fst (for_chunks_A (ex args)), finish str_of (snd (for_chunks_A (ex args))))"
  by (simp add: stream_query_A_def split: prod.splits)

lemma stream_query_B_parts:
  "stream_query_B str_of ex inp =
     (fst (for_chunks_B (ex inp)), finish str_of (snd (for_chunks_B (ex inp))))"
  by (simp add: stream_query_B_def split: prod.splits)

lemma exec_input_of_Cons:
  "inp ''messages'' = Some (first # rest) \<Longrightarrow>
     exec_input_of inp = Inr \<lparr>input = first, chat_history = rest\<rparr>"
  by (simp add: exec_input_of_def)

subsection \<open>Variant A\<close>

text \<open>
  C3: for every stream that variant A's \<open>stream_query\<close> consumes, the yielded chunks are
  exactly the received chunks that carry an \<open>output\<close> field, in order, each with its
  \<open>content\<close> field set to its \<open>output\<close> field; in particular, for three chunks of
  which only the last has an \<open>output\<close> field, of value \<open>v\<close> (such as \<open>''hello''\<close>),
  exactly one item is yielded and its content is \<open>v\<close>.
\<close>

theorem stream_query_A_yields_output_chunks:
  "(inp ''messages'' = Some (first # rest) \<longrightarrow>
      fst (stream_query_A str_of ex inp) =
        map (\<lambda>c. c(''content'' := c ''output''))
          (filter (\<lambda>c. c ''output'' \<noteq> None)
            (delivered (ex \<lparr>input = first, chat_history = rest\<rparr>)))) \<and>
   (\<forall>y \<in> set (fst (stream_query_A str_of ex inp)).
      y ''output'' \<noteq> None \<and> y ''content'' = y ''output'') \<and>
   (inp ''messages'' = Some (first # rest) \<and>
    ex \<lparr>input = first, chat_history = rest\<rparr> = [Inr c1, Inr c2, Inr c3] \<and>
    c1 ''output'' = None \<and> c2 ''output'' = None \<and> c3 ''output'' = Some v \<longrightarrow>
      stream_query_A str_of ex inp = ([c3(''content'' \<mapsto> v)], Returned) \<and>
      length (fst (stream_query_A str_of ex inp)) = 1 \<and>
      hd (fst (stream_query_A str_of ex inp)) ''content'' = Some v)"
proof (intro conjI impI ballI)
  assume "inp ''messages'' = Some (first # rest)"
  then show "fst (stream_query_A str_of ex inp) =
      map (\<lambda>c. c(''content'' := c ''output''))
        (filter (\<lambda>c. c ''output'' \<noteq> None)
          (delivered (ex \<lparr>input = first, chat_history = rest\<rparr>)))"
    by (simp add: fst_stream_query_A [OF exec_input_of_Cons] for_chunks_A_yields)
next
  fix y
  assume y: "y \<in> set (fst (stream_query_A str_of ex inp))"
  show "y ''output'' \<noteq> None"
  proof (cases "exec_input_of inp")
    case (Inl e)
    with y show ?thesis by (simp add: stream_query_A_def)
  next
    case (Inr args)
    with y show ?thesis
      by (auto simp: fst_stream_query_A for_chunks_A_yields)
  qed
  show "y ''content'' = y ''output''"
  proof (cases "exec_input_of inp")
    case (Inl e)
    with y show ?thesis by (simp add: stream_query_A_def)
  next
    case (Inr args)
    with y show ?thesis
      by (auto simp: fst_stream_query_A for_chunks_A_yields)
  qed
next
  assume a: "inp ''messages'' = Some (first # rest) \<and>
    ex \<lparr>input = first, chat_history = rest\<rparr> = [Inr c1, Inr c2, Inr c3] \<and>
    c1 ''output'' = None \<and> c2 ''output'' = None \<and> c3 ''output'' = Some v"
  then have r: "stream_query_A str_of ex inp = ([c3(''content'' \<mapsto> v)], Returned)"
    by (simp add: fst_stream_query_A [OF exec_input_of_Cons] finish_def)
  show "stream_query_A str_of ex inp = ([c3(''content'' \<mapsto> v)], Returned)"
    by (rule r)
  show "length (fst (stream_query_A str_of ex inp)) = 1"
    by (simp add: r)
  show "hd (fst (stream_query_A str_of ex inp)) ''content'' = Some v"
    by (simp add: r)
qed

theorem stream_query_A_yields_output_chunks_witness:
  "[''messages'' \<mapsto> [HumanMessage ''hi'']] ''messages'' = Some (HumanMessage ''hi'' # []) \<and>
   (\<lambda>args. [Inr [''actions'' \<mapsto> ''search''], Inr [''steps'' \<mapsto> ''observed''],
       Inr [''output'' \<mapsto> ''hello'']]) \<lparr>input = HumanMessage ''hi'', chat_history = []\<rparr> =
     [Inr [''actions'' \<mapsto> ''search''], Inr [''steps'' \<mapsto> ''observed''],
       Inr [''output'' \<mapsto> ''hello'']] \<and>
   [''actions'' \<mapsto> ''search''] ''output'' = None \<and>
   [''steps'' \<mapsto> ''observed''] ''output'' = None \<and>
   [''output'' \<mapsto> ''hello''] ''output'' = Some ''hello'' \<and>
   length (fst (stream_query_A exn_message
     (\<lambda>args. [Inr [''actions'' \<mapsto> ''search''], Inr [''steps'' \<mapsto> ''observed''],
       Inr [''output'' \<mapsto> ''hello'']])
     [''messages'' \<mapsto> [HumanMessage ''hi'']])) = 1 \<and>
   hd (fst (stream_query_A exn_message
     (\<lambda>args. [Inr [''actions'' \<mapsto> ''search''], Inr [''steps'' \<mapsto> ''observed''],
       Inr [''output'' \<mapsto> ''hello'']])
     [''messages'' \<mapsto> [HumanMessage ''hi'']])) ''content'' = Some ''hello'' \<and>
   snd (stream_query_A exn_message
     (\<lambda>args. [Inr [''actions'' \<mapsto> ''search''], Inr [''steps'' \<mapsto> ''observed''],
       Inr [''output'' \<mapsto> ''hello'']])
     [''messages'' \<mapsto> [HumanMessage ''hi'']]) = Returned"
proof -
  let ?inp = "[''messages'' \<mapsto> [HumanMessage ''hi'']]"
  let ?c1 = "[''actions'' \<mapsto> ''search'']"
  let ?c2 = "[''steps'' \<mapsto> ''observed'']"
  let ?c3 = "[''output'' \<mapsto> ''hello'']"
  let ?ex = "\<lambda>args :: message exec_input. [Inr ?c1, Inr ?c2, Inr ?c3]"
  have h: "?inp ''messages'' = Some (HumanMessage ''hi'' # []) \<and>
      ?ex \<lparr>input = HumanMessage ''hi'', chat_history = []\<rparr> = [Inr ?c1, Inr ?c2, Inr ?c3] \<and>
      ?c1 ''output'' = None \<and> ?c2 ''output'' = None \<and> ?c3 ''output'' = Some ''hello''"
    by simp
  note r = stream_query_A_yields_output_chunks [where inp = ?inp and ex = ?ex
      and first = "HumanMessage ''hi''" and rest = "[]" and str_of = exn_message
      and ?c1.0 = ?c1 and ?c2.0 = ?c2 and ?c3.0 = ?c3 and v = "''hello''",
      THEN conjunct2, THEN conjunct2, rule_format, OF h]
  from h r show ?thesis
    by simp
qed

text \<open>
  C9: when variant A's \<open>stream_query\<close> is called with an input whose list of messages is
  empty, the generator yields nothing and raises the wrapped runtime error, whose cause
  is the \<open>IndexError\<close> of taking the first message; it neither returns normally nor
  raises an error of another kind.
\<close>

theorem stream_query_A_empty_messages:
  "inp ''messages'' = Some [] \<Longrightarrow>
     stream_query_A str_of ex inp =
       ([], Raised (Exn RuntimeError
          (''Unexpected error. '' @ str_of (Exn IndexError ''list index out of range'' None))
          (Some (Exn IndexError ''list index out of range'' None))))"
  by (simp add: stream_query_A_def exec_input_of_def finish_def unexpected_error_def
      isinstance_Exception_def)

theorem stream_query_A_empty_messages_witness:
  "[''messages'' \<mapsto> ([] :: message list), ''user_id'' \<mapsto> []] ''messages'' = Some [] \<and>
   stream_query_A exn_message (\<lambda>args. [Inr [''output'' \<mapsto> ''hello'']])
     [''messages'' \<mapsto> ([] :: message list), ''user_id'' \<mapsto> []] =
     ([], Raised (Exn RuntimeError ''Unexpected error. list index out of range''
        (Some (Exn IndexError ''list index out of range'' None))))"
proof -
  have h: "[''messages'' \<mapsto> ([] :: message list), ''user_id'' \<mapsto> []] ''messages'' = Some []"
    by simp
  from h stream_query_A_empty_messages [where str_of = exn_message
      and inp = "[''messages'' \<mapsto> ([] :: message list), ''user_id'' \<mapsto> []]"
      and ex = "\<lambda>args. [Inr [''output'' \<mapsto> ''hello'']]", OF h]
  show ?thesis
    by simp
qed

subsection \<open>Variant B\<close>

text \<open>
  C4: for every stream that variant B's \<open>stream_query\<close> consumes, the yielded items are
  exactly the leading messages of the received units that are assistant messages or
  assistant deltas, unchanged and in order; a unit whose leading message is a tool result
  is not yielded, only printed. Given one assistant delta followed by one tool result,
  the consumer receives exactly one item, the assistant delta.
\<close>

theorem stream_query_B_yields_assistant_messages:
  "yielded (fst (stream_query_B str_of ex inp)) =
     filter isinstance_AI (map fst (delivered (ex inp))) \<and>
   printed (fst (stream_query_B str_of ex inp)) =
     map (\<lambda>m. ''ToolMessage received: '' @ content m)
       (filter isinstance_Tool (map fst (delivered (ex inp)))) \<and>
   stream_query_B str_of (\<lambda>i. [Inr (AIMessageChunk txt, md1), Inr (ToolMessage res, md2)]) inp =
     ([Yield (AIMessageChunk txt), Print (''ToolMessage received: '' @ res)], Returned) \<and>
   yielded (fst (stream_query_B str_of
     (\<lambda>i. [Inr (AIMessageChunk txt, md1), Inr (ToolMessage res, md2)]) inp)) =
     [AIMessageChunk txt]"
proof (intro conjI)
  show "yielded (fst (stream_query_B str_of ex inp)) =
      filter isinstance_AI (map fst (delivered (ex inp)))"
    by (simp add: stream_query_B_parts yielded_for_chunks_B)
  have "filter (\<lambda>m. \<not> isinstance_AI m \<and> isinstance_Tool m) ms = filter isinstance_Tool ms"
    for ms :: "message list"
    by (rule filter_cong) (auto dest: isinstance_Tool_not_AI)
  then show "printed (fst (stream_query_B str_of ex inp)) =
      map (\<lambda>m. ''ToolMessage received: '' @ content m)
        (filter isinstance_Tool (map fst (delivered (ex inp))))"
    by (simp add: stream_query_B_parts printed_for_chunks_B)
  show r: "stream_query_B str_of
      (\<lambda>i. [Inr (AIMessageChunk txt, md1), Inr (ToolMessage res, md2)]) inp =
      ([Yield (AIMessageChunk txt), Print (''ToolMessage received: '' @ res)], Returned)"
    by (simp add: stream_query_B_def isinstance_AI_def isinstance_Tool_def finish_def)
  show "yielded (fst (stream_query_B str_of
      (\<lambda>i. [Inr (AIMessageChunk txt, md1), Inr (ToolMessage res, md2)]) inp)) =
      [AIMessageChunk txt]"
    by (simp add: r)
qed

theorem stream_query_B_yields_assistant_messages_witness:
  "yielded (fst (stream_query_B exn_message
     (\<lambda>i. [Inr (AIMessageChunk ''Hel'', ()), Inr (ToolMessage ''42'', ())]) ())) =
     [AIMessageChunk ''Hel''] \<and>
   printed (fst (stream_query_B exn_message
     (\<lambda>i. [Inr (AIMessageChunk ''Hel'', ()), Inr (ToolMessage ''42'', ())]) ())) =
     [''ToolMessage received: 42'']"
proof -
  note T = stream_query_B_yields_assistant_messages [where str_of = exn_message
      and ex = "\<lambda>i. [Inr (AIMessageChunk ''Hel'', ()), Inr (ToolMessage ''42'', ())]"
      and inp = "()"]
  from T [THEN conjunct1] T [THEN conjunct2, THEN conjunct1] show ?thesis
    by (simp add: isinstance_AI_def isinstance_Tool_def)
qed

text \<open>
  C10: a streamed unit of variant B whose leading message is neither an assistant
  message or delta nor a tool result (a human message, say) is passed over: the
  generator yields, prints and ends exactly as on the stream without that unit, so
  every yielded item is an assistant message or delta.
\<close>

theorem stream_query_B_skips_other_messages:
  "stream_query_B str_of (\<lambda>i. drop_unhandled (ex i)) inp = stream_query_B str_of ex inp \<and>
   (\<not> isinstance_AI m \<and> \<not> isinstance_Tool m \<longrightarrow>
      stream_query_B str_of (\<lambda>i. Inr (m, md) # ex i) inp = stream_query_B str_of ex inp) \<and>
   (\<forall>y \<in> set (yielded (fst (stream_query_B str_of ex inp))). isinstance_AI y) \<and>
   stream_query_B str_of (\<lambda>i. [Inr (HumanMessage txt, md)]) inp = ([], Returned)"
proof (intro conjI impI ballI)
  show "stream_query_B str_of (\<lambda>i. drop_unhandled (ex i)) inp = stream_query_B str_of ex inp"
    by (simp add: stream_query_B_def for_chunks_B_drop_unhandled)
next
  assume "\<not> isinstance_AI m \<and> \<not> isinstance_Tool m"
  then show "stream_query_B str_of (\<lambda>i. Inr (m, md) # ex i) inp = stream_query_B str_of ex inp"
    by (simp add: stream_query_B_def)
next
  fix y
  assume "y \<in> set (yielded (fst (stream_query_B str_of ex inp)))"
  then show "isinstance_AI y"
    by (simp add: stream_query_B_parts yielded_for_chunks_B)
next
  show "stream_query_B str_of (\<lambda>i. [Inr (HumanMessage txt, md)]) inp = ([], Returned)"
    by (simp add: stream_query_B_def isinstance_AI_def isinstance_Tool_def finish_def)
qed

theorem stream_query_B_skips_other_messages_witness:
  "\<not> isinstance_AI (HumanMessage ''hi'') \<and> \<not> isinstance_Tool (HumanMessage ''hi'') \<and>
   stream_query_B exn_message
     (\<lambda>i. [Inr (HumanMessage ''hi'', ()), Inr (AIMessageChunk ''Hel'', ()),
        Inr (SystemMessage ''be brief'', ()), Inr (ToolMessage ''42'', ())]) () =
     ([Yield (AIMessageChunk ''Hel''), Print ''ToolMessage received: 42''], Returned)"
proof -
  have h: "\<not> isinstance_AI (HumanMessage ''hi'') \<and> \<not> isinstance_Tool (HumanMessage ''hi'')"
    by (simp add: isinstance_AI_def isinstance_Tool_def)
  note r = stream_query_B_skips_other_messages [where str_of = exn_message
      and m = "HumanMessage ''hi''" and md = "()" and inp = "()"
      and ex = "\<lambda>i. [Inr (AIMessageChunk ''Hel'', ()), Inr (SystemMessage ''be brief'', ()),
        Inr (ToolMessage ''42'', ())]",
      THEN conjunct2, THEN conjunct1, rule_format, OF h]
  from h r show ?thesis
    by (simp add: stream_query_B_def isinstance_AI_def isinstance_Tool_def finish_def)
qed

subsection \<open>Both variants\<close>

text \<open>
  C8 (as amended): in both variants, when the stream of the executor raises an exception
  \<open>e\<close> after the units \<open>pre\<close>, what the generator has yielded is what the units before
  the exception gave, and nothing that the stream holds after the exception is
  produced. If \<open>e\<close> is an instance of \<^verbatim>\<open>Exception\<close>, the generator raises a
  \<open>RuntimeError\<close> whose cause is \<open>e\<close>; otherwise \<open>e\<close> itself leaves the generator,
  unwrapped.
\<close>

theorem stream_query_wraps_stream_error:
  "(inp ''messages'' = Some (first # rest) \<and>
    exA \<lparr>input = first, chat_history = rest\<rparr> = map Inr pre @ Inl e # post \<longrightarrow>
      stream_query_A str_of exA inp =
        (map (\<lambda>c. c(''content'' := c ''output'')) (filter (\<lambda>c. c ''output'' \<noteq> None) pre),
         if isinstance_Exception e
         then Raised (Exn RuntimeError (''Unexpected error. '' @ str_of e) (Some e))
         else Raised e)) \<and>
   (exB inpB = map Inr preB @ Inl e # postB \<longrightarrow>
      stream_query_B str_of exB inpB =
        (fst (for_chunks_B (map Inr preB)),
         if isinstance_Exception e
         then Raised (Exn RuntimeError (''Unexpected error. '' @ str_of e) (Some e))
         else Raised e) \<and>
      yielded (fst (stream_query_B str_of exB inpB)) = filter isinstance_AI (map fst preB))"
proof (intro conjI impI)
  assume "inp ''messages'' = Some (first # rest) \<and>
    exA \<lparr>input = first, chat_history = rest\<rparr> = map Inr pre @ Inl e # post"
  then show "stream_query_A str_of exA inp =
      (map (\<lambda>c. c(''content'' := c ''output'')) (filter (\<lambda>c. c ''output'' \<noteq> None) pre),
       if isinstance_Exception e
       then Raised (Exn RuntimeError (''Unexpected error. '' @ str_of e) (Some e))
       else Raised e)"
    by (simp add: fst_stream_query_A [OF exec_input_of_Cons] for_chunks_A_raise
        for_chunks_A_yields delivered_map_Inr finish_def unexpected_error_def)
next
  assume b: "exB inpB = map Inr preB @ Inl e # postB"
  then show r: "stream_query_B str_of exB inpB =
      (fst (for_chunks_B (map Inr preB)),
       if isinstance_Exception e
       then Raised (Exn RuntimeError (''Unexpected error. '' @ str_of e) (Some e))
       else Raised e)"
    by (simp add: stream_query_B_parts for_chunks_B_raise finish_def unexpected_error_def)
  show "yielded (fst (stream_query_B str_of exB inpB)) = filter isinstance_AI (map fst preB)"
    by (simp add: r yielded_for_chunks_B delivered_map_Inr)
qed

theorem stream_query_wraps_stream_error_witness:
  "stream_query_A exn_message
     (\<lambda>args. [Inr [''output'' \<mapsto> ''one''], Inl (Exn (OtherError ''Timeout'') ''slow'' None),
        Inr [''output'' \<mapsto> ''two'']])
     [''messages'' \<mapsto> [HumanMessage ''hi'', AIMessage ''yes?'']] =
     ([[''output'' \<mapsto> ''one'', ''content'' \<mapsto> ''one'']],
      Raised (Exn RuntimeError ''Unexpected error. slow''
        (Some (Exn (OtherError ''Timeout'') ''slow'' None)))) \<and>
   stream_query_B exn_message
     (\<lambda>i. [Inr (AIMessageChunk ''Hel'', ()), Inl (Exn (OtherError ''Timeout'') ''slow'' None),
        Inr (AIMessageChunk ''lo'', ())]) () =
     ([Yield (AIMessageChunk ''Hel'')],
      Raised (Exn RuntimeError ''Unexpected error. slow''
        (Some (Exn (OtherError ''Timeout'') ''slow'' None))))"
proof -
  let ?e = "Exn (OtherError ''Timeout'') ''slow'' None"
  let ?exA = "\<lambda>args :: message exec_input.
    [Inr [''output'' \<mapsto> ''one''], Inl ?e, Inr [''output'' \<mapsto> ''two'']]"
  let ?inp = "[''messages'' \<mapsto> [HumanMessage ''hi'', AIMessage ''yes?'']]"
  let ?exB = "\<lambda>i :: unit. [Inr (AIMessageChunk ''Hel'', ()), Inl ?e, Inr (AIMessageChunk ''lo'', ())]"
  have a: "?inp ''messages'' = Some (HumanMessage ''hi'' # [AIMessage ''yes?'']) \<and>
      ?exA \<lparr>input = HumanMessage ''hi'', chat_history = [AIMessage ''yes?'']\<rparr> =
        map Inr [[''output'' \<mapsto> ''one'']] @ Inl ?e # [Inr [''output'' \<mapsto> ''two'']]"
    by simp
  have b: "?exB () = map Inr [(AIMessageChunk ''Hel'', ())] @ Inl ?e # [Inr (AIMessageChunk ''lo'', ())]"
    by simp
  note T = stream_query_wraps_stream_error [where str_of = exn_message and e = ?e
      and inp = ?inp and first = "HumanMessage ''hi''" and rest = "[AIMessage ''yes?'']"
      and exA = ?exA and pre = "[[''output'' \<mapsto> ''one'']]"
      and post = "[Inr [''output'' \<mapsto> ''two'']]"
      and exB = ?exB and inpB = "()" and preB = "[(AIMessageChunk ''Hel'', ())]"
      and postB = "[Inr (AIMessageChunk ''lo'', ())]"]
  note ra = T [THEN conjunct1, rule_format, OF a]
  note rb = T [THEN conjunct2, rule_format, OF b]
  from ra rb show ?thesis
    by (simp add: isinstance_AI_def isinstance_Exception_def)
qed

text \<open>
  The claim as first stated, that every exception of the stream is wrapped in a runtime
  error, fails in both variants for a stream that raises \<open>KeyboardInterrupt\<close>: the
  handler \<^verbatim>\<open>except Exception\<close> does not match it.
\<close>

theorem stream_query_keyboard_interrupt_unwrapped:
  "\<not> ([''messages'' \<mapsto> [HumanMessage ''hi'']] ''messages'' = Some (HumanMessage ''hi'' # []) \<longrightarrow>
        snd (stream_query_A exn_message
          (\<lambda>args. [Inr [''output'' \<mapsto> ''one''], Inl (Exn KeyboardInterrupt [] None)])
          [''messages'' \<mapsto> [HumanMessage ''hi'']]) =
        Raised (Exn RuntimeError
          (''Unexpected error. '' @ exn_message (Exn KeyboardInterrupt [] None))
          (Some (Exn KeyboardInterrupt [] None)))) \<and>
   \<not> (snd (stream_query_B exn_message
          (\<lambda>i. [Inr (AIMessageChunk ''Hel'', ()), Inl (Exn KeyboardInterrupt [] None)]) ()) =
        Raised (Exn RuntimeError
          (''Unexpected error. '' @ exn_message (Exn KeyboardInterrupt [] None))
          (Some (Exn KeyboardInterrupt [] None)))) \<and>
   snd (stream_query_B exn_message
     (\<lambda>i. [Inr (AIMessageChunk ''Hel'', ()), Inl (Exn KeyboardInterrupt [] None)]) ()) =
     Raised (Exn KeyboardInterrupt [] None)"
  by (simp add: stream_query_A_def stream_query_B_def exec_input_of_def finish_def
      isinstance_Exception_def isinstance_AI_def)

end
